theory Spec2Isabelle
  imports Complex_Main "HOL-Library.Sublist"
begin

section \<open>Library types of the Go program\<close>

text \<open>
  \<^verbatim>\<open>time.Time\<close> is an instant; every time of the program comes from \<^verbatim>\<open>time.Parse\<close> with a
  layout that has no zone, so it is a UTC instant. It is modelled as the number of
  nanoseconds since Go's zero time (January 1, year 1, 00:00:00 UTC), an unbounded
  integer: the bounds of Go's representation are not modelled.
  \<^verbatim>\<open>decimal.Decimal\<close> (shopspring) is an arbitrary-precision decimal whose \<^verbatim>\<open>Equal\<close>,
  \<^verbatim>\<open>GreaterThan\<close>, \<^verbatim>\<open>Neg\<close>, \<^verbatim>\<open>Sub\<close>, \<^verbatim>\<open>Add\<close> and \<^verbatim>\<open>Abs\<close> are exact on the numeric
  value; it is modelled by its value, a rational number.
\<close>

type_synonym Time = int
type_synonym Decimal = rat

text \<open>\<^verbatim>\<open>24 * time.Hour\<close>, a \<^verbatim>\<open>time.Duration\<close> in nanoseconds.\<close>

definition hours24 :: int where
  "hours24 = 86400000000000"

text \<open>
  \<^verbatim>\<open>t.Truncate(d)\<close> rounds \<open>t\<close> down to a multiple of \<open>d\<close> since the zero time and
  returns \<open>t\<close> unchanged when \<open>d <= 0\<close>.
\<close>

definition Truncate :: "Time \<Rightarrow> int \<Rightarrow> Time" where
  "Truncate t d = (if d \<le> 0 then t else t - t mod d)"

text \<open>\<^verbatim>\<open>t.AddDate(0, 0, days)\<close> on a UTC instant moves it by whole days of 24 hours.\<close>

definition AddDate :: "Time \<Rightarrow> int \<Rightarrow> Time" where
  "AddDate t days = t + days * hours24"

text \<open>
  The day-granular inclusive window test that the program writes as
  \<^verbatim>\<open>(txnDay.Equal(startDay) || txnDay.After(startDay)) && (txnDay.Equal(endDay) || txnDay.Before(endDay))\<close>
  with all three instants truncated to 24 hours.
\<close>

definition inDateRange :: "Time \<Rightarrow> Time \<Rightarrow> Time \<Rightarrow> bool" where
  "inDateRange t startDate endDate =
     (let txnDay = Truncate t hours24;
          startDay = Truncate startDate hours24;
          endDay = Truncate endDate hours24
      in (txnDay = startDay \<or> txnDay > startDay) \<and> (txnDay = endDay \<or> txnDay < endDay))"

text \<open>
  A Go \<^verbatim>\<open>error\<close> built by \<^verbatim>\<open>fmt.Errorf("prefix: %w", err)\<close> is a wrapper around the
  error it reports; \<open>Err\<close> is an error of a library (opening or reading a file).
\<close>

datatype error = Err string | Wrap string error

section \<open>Domain (internal/domain)\<close>

type_synonym TransactionType = string

definition Debit :: TransactionType where
  "Debit = ''DEBIT''"

definition Credit :: TransactionType where
  "Credit = ''CREDIT''"

record SystemTransaction =
  TrxID :: string
  Amount :: Decimal
  Type :: TransactionType
  TransactionTime :: Time

record BankTransaction =
  UniqID :: string
  Amount :: Decimal
  Date :: Time
  BankID :: string

record Match =
  SystemTxn :: SystemTransaction
  BankTxn :: BankTransaction
  AmmountDiff :: Decimal

section \<open>Matching strategies (internal/matcher)\<close>

text \<open>
  The interface \<^verbatim>\<open>MatchingStrategy\<close> has three implementations, each a struct holding its
  configuration; the constructors store their argument and check nothing. The
  \<^verbatim>\<open>float64\<close> threshold of \<^verbatim>\<open>NewFuzzyMatchStrategy\<close> is given by the decimal that
  \<^verbatim>\<open>decimal.NewFromFloat\<close> makes of it.
\<close>

datatype MatchingStrategy =
    ExactMatchStrategy
  | FuzzyMatchStrategy (AmountThreshold: Decimal)
  | DateBufferMatchStrategy (BufferDays: int)

definition NewExactMatchStrategy :: MatchingStrategy where
  "NewExactMatchStrategy = ExactMatchStrategy"

definition NewFuzzyMatchStrategy :: "Decimal \<Rightarrow> MatchingStrategy" where
  "NewFuzzyMatchStrategy threshold = FuzzyMatchStrategy threshold"

definition NewDateBufferMatchStrategy :: "int \<Rightarrow> MatchingStrategy" where
  "NewDateBufferMatchStrategy bufferDays = DateBufferMatchStrategy bufferDays"

definition getNormalizedAmount :: "SystemTransaction \<Rightarrow> Decimal" where
  "getNormalizedAmount sysTxn =
     (if Type sysTxn = Debit then - SystemTransaction.Amount sysTxn
      else SystemTransaction.Amount sysTxn)"

text \<open>
  Each \<^verbatim>\<open>Match\<close> method scans the candidates in order; \<^verbatim>\<open>continue\<close> is the recursive
  call on the rest, \<^verbatim>\<open>return bankTxn, true\<close> is \<open>Some bankTxn\<close> and the final
  \<^verbatim>\<open>return domain.BankTransaction{}, false\<close> is \<open>None\<close>.
\<close>

fun ExactMatch :: "SystemTransaction \<Rightarrow> BankTransaction list \<Rightarrow> BankTransaction option" where
  "ExactMatch sysTxn [] = None"
| "ExactMatch sysTxn (bankTxn # rest) =
     (let sysTxnDate = Truncate (TransactionTime sysTxn) hours24;
          sysAmount = getNormalizedAmount sysTxn;
          bankTxnDate = Truncate (Date bankTxn) hours24
      in if \<not> (bankTxnDate = sysTxnDate) then ExactMatch sysTxn rest
         else if \<not> (BankTransaction.Amount bankTxn = sysAmount) then ExactMatch sysTxn rest
         else Some bankTxn)"

fun FuzzyMatch :: "Decimal \<Rightarrow> SystemTransaction \<Rightarrow> BankTransaction list \<Rightarrow> BankTransaction option" where
  "FuzzyMatch threshold sysTxn [] = None"
| "FuzzyMatch threshold sysTxn (bankTxn # rest) =
     (let sysTxnDate = Truncate (TransactionTime sysTxn) hours24;
          sysAmount = getNormalizedAmount sysTxn;
          bankTxnDate = Truncate (Date bankTxn) hours24
      in if \<not> (bankTxnDate = sysTxnDate) then FuzzyMatch threshold sysTxn rest
         else let diff = \<bar>sysAmount - BankTransaction.Amount bankTxn\<bar>
              in if diff > threshold then FuzzyMatch threshold sysTxn rest
                 else Some bankTxn)"

fun DateBufferMatch :: "int \<Rightarrow> SystemTransaction \<Rightarrow> BankTransaction list \<Rightarrow> BankTransaction option" where
  "DateBufferMatch bufferDays sysTxn [] = None"
| "DateBufferMatch bufferDays sysTxn (bankTxn # rest) =
     (let sysAmount = getNormalizedAmount sysTxn;
          minDate = Truncate (AddDate (TransactionTime sysTxn) (- bufferDays)) hours24;
          maxDate = Truncate (AddDate (TransactionTime sysTxn) bufferDays) hours24;
          bankTxnDate = Truncate (Date bankTxn) hours24
      in if bankTxnDate < minDate \<or> bankTxnDate > maxDate then DateBufferMatch bufferDays sysTxn rest
         else if \<not> (BankTransaction.Amount bankTxn = sysAmount) then DateBufferMatch bufferDays sysTxn rest
         else Some bankTxn)"

text \<open>The dynamic dispatch of \<^verbatim>\<open>strategy.Match(sysTxn, bankTxns)\<close>.\<close>

fun Match_strategy :: "MatchingStrategy \<Rightarrow> SystemTransaction \<Rightarrow> BankTransaction list \<Rightarrow> BankTransaction option" where
  "Match_strategy ExactMatchStrategy sysTxn bankTxns = ExactMatch sysTxn bankTxns"
| "Match_strategy (FuzzyMatchStrategy threshold) sysTxn bankTxns = FuzzyMatch threshold sysTxn bankTxns"
| "Match_strategy (DateBufferMatchStrategy bufferDays) sysTxn bankTxns = DateBufferMatch bufferDays sysTxn bankTxns"

section \<open>Match orchestrator (DefaultMatcher)\<close>

definition defaultAmountThreshold :: Decimal where
  "defaultAmountThreshold = 1 / 100"

definition defaultDaysBuffer :: int where
  "defaultDaysBuffer = 1"

definition NewDefaultMatcher :: "MatchingStrategy list \<Rightarrow> MatchingStrategy list" where
  "NewDefaultMatcher strategies =
     (if length strategies = 0
      then [NewExactMatchStrategy,
            NewFuzzyMatchStrategy defaultAmountThreshold,
            NewDateBufferMatchStrategy defaultDaysBuffer]
      else strategies)"

text \<open>\<^verbatim>\<open>fmt.Sprintf("%s-%s", bankTxn.BankID, bankTxn.UniqID)\<close>\<close>

definition bankKey :: "BankTransaction \<Rightarrow> string" where
  "bankKey bankTxn = BankID bankTxn @ ''-'' @ UniqID bankTxn"

text \<open>
  The inner loop over the strategies: the available candidates are the bank transactions
  whose key is not yet in \<open>matchedBankTxns\<close> (a \<^verbatim>\<open>map[string]bool\<close>, here the set of keys
  mapped to true); the first strategy that finds a candidate ends the loop.
\<close>

fun tryStrategies :: "MatchingStrategy list \<Rightarrow> SystemTransaction \<Rightarrow> BankTransaction list \<Rightarrow> string set \<Rightarrow> BankTransaction option" where
  "tryStrategies [] sysTxn bankTxns matchedBankTxns = None"
| "tryStrategies (strategy # strategies) sysTxn bankTxns matchedBankTxns =
     (let availableBankTxns = filter (\<lambda>bankTxn. \<not> (bankKey bankTxn \<in> matchedBankTxns)) bankTxns
      in case Match_strategy strategy sysTxn availableBankTxns of
           Some bankTxn \<Rightarrow> Some bankTxn
         | None \<Rightarrow> tryStrategies strategies sysTxn bankTxns matchedBankTxns)"

text \<open>The outer loop over the system transactions, with the claimed keys as state.\<close>

fun matchLoop :: "MatchingStrategy list \<Rightarrow> SystemTransaction list \<Rightarrow> BankTransaction list \<Rightarrow> string set \<Rightarrow> Match list" where
  "matchLoop strategies [] bankTxns matchedBankTxns = []"
| "matchLoop strategies (sysTxn # systemTxns) bankTxns matchedBankTxns =
     (case tryStrategies strategies sysTxn bankTxns matchedBankTxns of
        None \<Rightarrow> matchLoop strategies systemTxns bankTxns matchedBankTxns
      | Some matchedBankTxn \<Rightarrow>
          (let sysAmount = getNormalizedAmount sysTxn;
               amountDiff = \<bar>sysAmount - BankTransaction.Amount matchedBankTxn\<bar>
           in \<lparr>SystemTxn = sysTxn, BankTxn = matchedBankTxn, AmmountDiff = amountDiff\<rparr>
              # matchLoop strategies systemTxns bankTxns (insert (bankKey matchedBankTxn) matchedBankTxns)))"

text \<open>
  \<^verbatim>\<open>FindMatches\<close> returns \<^verbatim>\<open>(matches, nil)\<close> at its only return statement; the pair
  \<^verbatim>\<open>([]Match, error)\<close> is the sum with \<open>Inl\<close> for a non-nil error. A
  \<^verbatim>\<open>DefaultMatcher\<close> holds its list of strategies and nothing else: it is given by that list.
\<close>

definition FindMatches :: "MatchingStrategy list \<Rightarrow> SystemTransaction list \<Rightarrow> BankTransaction list \<Rightarrow> error + Match list" where
  "FindMatches strategies systemTxns bankTxns = Inr (matchLoop strategies systemTxns bankTxns {})"

section \<open>CSV repositories (internal/repository)\<close>

text \<open>
  What the repositories take from outside the program: \<^verbatim>\<open>time.Parse(layout, value)\<close>,
  \<^verbatim>\<open>decimal.NewFromString(value)\<close> (\<open>None\<close> for a parse error) and the file system. A file
  is either the error of opening it or the list of records that a CSV reader yields from
  it, the header record first; a file whose records cannot all be read is not modelled.
\<close>

record Lib =
  timeParse :: "string \<Rightarrow> string \<Rightarrow> Time option"
  NewFromString :: "string \<Rightarrow> Decimal option"
  csvFile :: "string \<Rightarrow> error + string list list"

text \<open>
  \<^verbatim>\<open>strings.EqualFold\<close> compares under Unicode case folding; the model folds the ASCII
  letters, which is the same on ASCII column names.
\<close>

definition toLowerASCII :: "char \<Rightarrow> char" where
  "toLowerASCII c =
     (let n = (of_char c :: nat) in if 65 \<le> n \<and> n \<le> 90 then char_of (n + 32) else c)"

definition EqualFold :: "string \<Rightarrow> string \<Rightarrow> bool" where
  "EqualFold s t = (map toLowerASCII s = map toLowerASCII t)"

fun findField :: "string \<Rightarrow> string list \<Rightarrow> nat \<Rightarrow> nat option" where
  "findField column [] i = None"
| "findField column (field # header) i =
     (if EqualFold column field then Some i else findField column header (Suc i))"

text \<open>The column map is a \<^verbatim>\<open>map[string]int\<close>, here an association list in the order of insertion.\<close>

fun crateHeaderMap :: "string list \<Rightarrow> string list \<Rightarrow> error + (string \<times> nat) list" where
  "crateHeaderMap header [] = Inr []"
| "crateHeaderMap header (column # expectedHeader) =
     (case findField column header 0 of
        None \<Rightarrow> Inl (Err (''required field '' @ [CHR 0x27] @ column @ [CHR 0x27] @ '' not found in CSV header''))
      | Some i \<Rightarrow>
          (case crateHeaderMap header expectedHeader of
             Inl err \<Rightarrow> Inl err
           | Inr columnMap \<Rightarrow> Inr ((column, i) # columnMap)))"

text \<open>\<^verbatim>\<open>columnMap[name]\<close>: the index stored for the name, Go's zero value for an absent key.\<close>

definition col :: "(string \<times> nat) list \<Rightarrow> string \<Rightarrow> nat" where
  "col columnMap name = (case map_of columnMap name of Some i \<Rightarrow> i | None \<Rightarrow> 0)"

text \<open>The loop that finds the highest column index needed, starting from \<open>-1\<close>.\<close>

definition maxIndex :: "(string \<times> nat) list \<Rightarrow> int" where
  "maxIndex columnMap = foldl (\<lambda>mx (name, idx). if int idx > mx then int idx else mx) (- 1) columnMap"

definition systemHeaderFields :: "string list" where
  "systemHeaderFields = [''trxID'', ''amount'', ''type'', ''transactionTime'']"

definition bankHeaderFields :: "string list" where
  "bankHeaderFields = [''unique_identifier'', ''amount'', ''date'']"

text \<open>
  Modelled from the spec: the package \<^verbatim>\<open>pkg/fileutil\<close> (\<^verbatim>\<open>NewCSVReader\<close>, \<^verbatim>\<open>ReadHeader\<close>,
  \<^verbatim>\<open>ReadAndProcessByRow\<close>) is not among the sources. By the spec \<^verbatim>\<open>readHeader\<close> returns
  the ordered column names and fails when the resource cannot be opened or is empty.
\<close>

definition ReadHeader :: "error + string list list \<Rightarrow> error + string list" where
  "ReadHeader file =
     (case file of
        Inl err \<Rightarrow> Inl err
      | Inr [] \<Rightarrow> Inl (Err ''EOF'')
      | Inr (header # rows) \<Rightarrow> Inr header)"

text \<open>
  Modelled from the spec: \<^verbatim>\<open>ReadAndProcessByRow\<close> of the absent \<^verbatim>\<open>pkg/fileutil\<close>. By the
  spec \<^verbatim>\<open>forEachRow\<close> invokes the callback once per data row, skipping the header, up to
  the end of the input. The callback appends to the slice it closes over, which is the
  state threaded here; the callbacks of the program always return nil.
\<close>

definition ReadAndProcessByRow ::
  "error + string list list \<Rightarrow> (string list \<Rightarrow> 'a list \<Rightarrow> 'a list) \<Rightarrow> error + 'a list" where
  "ReadAndProcessByRow file rowProcessorFn =
     (case file of
        Inl err \<Rightarrow> Inl err
      | Inr [] \<Rightarrow> Inr []
      | Inr (header # rows) \<Rightarrow> Inr (foldl (\<lambda>txns row. rowProcessorFn row txns) [] rows))"

subsection \<open>System transactions\<close>

record CSVSystemRepository =
  FilePath :: string
  DateFormat :: string
  NumWorkers :: nat
  BatchSize :: nat

definition NewCSVSystemRepository :: "string \<Rightarrow> string \<Rightarrow> CSVSystemRepository" where
  "NewCSVSystemRepository fp dateFormat =
     \<lparr>FilePath = fp,
      DateFormat = (if dateFormat = '''' then ''2006-01-02T15:04:05'' else dateFormat),
      NumWorkers = 4, BatchSize = 1000\<rparr>"

text \<open>The row callback of the sequential method: a \<^verbatim>\<open>return nil\<close> leaves \<open>txns\<close> as it is.\<close>

definition systemRowProcessorFn ::
  "Lib \<Rightarrow> (string \<times> nat) list \<Rightarrow> string \<Rightarrow> string list \<Rightarrow> SystemTransaction list \<Rightarrow> SystemTransaction list" where
  "systemRowProcessorFn lib columnMap dateFormat row txns =
     (if int (length row) \<le> maxIndex columnMap then txns
      else case timeParse lib dateFormat (row ! col columnMap ''transactionTime'') of
        None \<Rightarrow> txns
      | Some txTime \<Rightarrow>
         (case NewFromString lib (row ! col columnMap ''amount'') of
            None \<Rightarrow> txns
          | Some amount \<Rightarrow>
             (let txnType = row ! col columnMap ''type''
              in if txnType \<noteq> Debit \<and> txnType \<noteq> Credit then txns
                 else txns @ [\<lparr>TrxID = row ! col columnMap ''trxID'', Amount = amount,
                               Type = txnType, TransactionTime = txTime\<rparr>])))"

definition CSVSystemRepository_GetTransactionsInRange ::
  "Lib \<Rightarrow> CSVSystemRepository \<Rightarrow> Time \<Rightarrow> Time \<Rightarrow> error + SystemTransaction list" where
  "CSVSystemRepository_GetTransactionsInRange lib r startDate endDate =
     (let reader = csvFile lib (CSVSystemRepository.FilePath r)
      in case ReadHeader reader of
           Inl err \<Rightarrow> Inl (Wrap ''reading system transaction header'' err)
         | Inr header \<Rightarrow>
            (case crateHeaderMap header systemHeaderFields of
               Inl err \<Rightarrow> Inl (Wrap ''mapping CSV column'' err)
             | Inr columnMap \<Rightarrow>
                (case ReadAndProcessByRow reader
                        (systemRowProcessorFn lib columnMap (CSVSystemRepository.DateFormat r)) of
                   Inl err \<Rightarrow> Inl (Wrap ''reading and processing system transaction'' err)
                 | Inr txns \<Rightarrow>
                     Inr (filter (\<lambda>txn. inDateRange (TransactionTime txn) startDate endDate) txns))))"

text \<open>
  The producer of the concurrent method: it appends each record to the current batch and
  sends the batch to the \<open>jobs\<close> channel once it holds \<open>batchSize\<close> records, the rest at
  the end. The result is the sequence of batches sent.
\<close>

fun readAndDistribute :: "string list list \<Rightarrow> nat \<Rightarrow> string list list \<Rightarrow> string list list list" where
  "readAndDistribute [] batchSize batch = (if length batch > 0 then [batch] else [])"
| "readAndDistribute (record # records) batchSize batch =
     (let batch' = batch @ [record]
      in if length batch' \<ge> batchSize then batch' # readAndDistribute records batchSize []
         else readAndDistribute records batchSize batch')"

definition readAndDistributeSystemTxns :: "string list list \<Rightarrow> nat \<Rightarrow> string list list list" where
  "readAndDistributeSystemTxns records batchSize = readAndDistribute records batchSize []"

text \<open>The body of a worker of \<^verbatim>\<open>startWorkers\<close> on one batch: the rows it keeps, in order.\<close>

fun systemBatchResults ::
  "Lib \<Rightarrow> (string \<times> nat) list \<Rightarrow> string \<Rightarrow> Time \<Rightarrow> Time \<Rightarrow> string list list \<Rightarrow> SystemTransaction list" where
  "systemBatchResults lib columnMap dateFormat startDate endDate [] = []"
| "systemBatchResults lib columnMap dateFormat startDate endDate (row # batch) =
     (let rest = systemBatchResults lib columnMap dateFormat startDate endDate batch
      in if int (length row) \<le> maxIndex columnMap then rest
         else case timeParse lib dateFormat (row ! col columnMap ''transactionTime'') of
           None \<Rightarrow> rest
         | Some txTime \<Rightarrow>
            (let txnDay = Truncate txTime hours24;
                 startDay = Truncate startDate hours24;
                 endDay = Truncate endDate hours24
             in if txnDay < startDay \<or> txnDay > endDay then rest
                else case NewFromString lib (row ! col columnMap ''amount'') of
                  None \<Rightarrow> rest
                | Some amount \<Rightarrow>
                   (let txnType = row ! col columnMap ''type''
                    in if txnType \<noteq> Debit \<and> txnType \<noteq> Credit then rest
                       else \<lparr>TrxID = row ! col columnMap ''trxID'', Amount = amount,
                             Type = txnType, TransactionTime = txTime\<rparr> # rest)))"

text \<open>
  The worker pool: every batch of \<open>jobs\<close> is taken by one worker, which sends its results
  to the \<open>results\<close> channel when there are any. The list holds what is sent, in the order
  of the batches.
\<close>

definition startWorkers ::
  "Lib \<Rightarrow> (string \<times> nat) list \<Rightarrow> string \<Rightarrow> Time \<Rightarrow> Time \<Rightarrow> string list list list \<Rightarrow> SystemTransaction list list" where
  "startWorkers lib columnMap dateFormat startDate endDate jobs =
     filter (\<lambda>batchResults. length batchResults > 0)
       (map (systemBatchResults lib columnMap dateFormat startDate endDate) jobs)"

text \<open>
  The collector appends the batch results in the order in which they arrive. That order
  depends on how the workers are scheduled: \<open>schedule\<close> lists the indices of the sent
  results in the order of arrival (a permutation of \<open>[0..<length results]\<close>).
\<close>

definition collectResults :: "nat list \<Rightarrow> 'a list list \<Rightarrow> 'a list" where
  "collectResults schedule results =
     concat (map (\<lambda>i. if i < length results then results ! i else []) schedule)"

text \<open>
  With no worker nothing is sent to \<open>results\<close>, which is closed at once: the collector
  returns no transaction.
\<close>

definition CSVSystemRepository_GetTransactionsInRangeConcurrently ::
  "Lib \<Rightarrow> nat list \<Rightarrow> CSVSystemRepository \<Rightarrow> Time \<Rightarrow> Time \<Rightarrow> error + SystemTransaction list" where
  "CSVSystemRepository_GetTransactionsInRangeConcurrently lib schedule r startDate endDate =
     (case csvFile lib (CSVSystemRepository.FilePath r) of
        Inl err \<Rightarrow> Inl (Wrap ''opening csv file'' err)
      | Inr [] \<Rightarrow> Inl (Wrap ''reading system transaction header'' (Err ''EOF''))
      | Inr (header # records) \<Rightarrow>
         (case crateHeaderMap header systemHeaderFields of
            Inl err \<Rightarrow> Inl (Wrap ''mapping CSV column'' err)
          | Inr columnMap \<Rightarrow>
             (if CSVSystemRepository.NumWorkers r = 0 then Inr []
              else let jobs = readAndDistributeSystemTxns records (CSVSystemRepository.BatchSize r);
                       results = startWorkers lib columnMap (CSVSystemRepository.DateFormat r)
                                   startDate endDate jobs
                   in Inr (collectResults schedule results))))"

subsection \<open>Bank statements\<close>

record CSVBankRepository =
  FilePath :: string
  BankIdentifier :: string
  DateFormat :: string
  NumWorkers :: nat
  BatchSize :: nat

text \<open>
  \<^verbatim>\<open>filepath.Base\<close> on a system whose separator is the slash: the last element of the
  path, trailing slashes removed first; \<open>.\<close> for the empty path and \<open>/\<close> for a path
  of slashes only.
\<close>

definition IsPathSeparator :: "char \<Rightarrow> bool" where
  "IsPathSeparator c = (c = CHR ''/'')"

definition Base :: "string \<Rightarrow> string" where
  "Base path =
     (if path = '''' then ''.''
      else let stripped = rev (dropWhile IsPathSeparator (rev path));
               element = rev (takeWhile (\<lambda>c. \<not> IsPathSeparator c) (rev stripped))
           in if element = '''' then ''/'' else element)"

datatype panic = SliceBoundsOutOfRange

text \<open>
  \<^verbatim>\<open>bankID[:len(bankID)-4]\<close> panics when the upper bound is negative; the panic is the
  left summand.
\<close>

definition NewCSVBankRepository :: "string \<Rightarrow> string \<Rightarrow> panic + CSVBankRepository" where
  "NewCSVBankRepository filePath dateFormat =
     (let dateFormat' = (if dateFormat = '''' then ''2006-01-02'' else dateFormat);
          bankID = Base filePath
      in if int (length bankID) - 4 < 0 then Inl SliceBoundsOutOfRange
         else Inr \<lparr>FilePath = filePath,
                   BankIdentifier = take (length bankID - 4) bankID,
                   DateFormat = dateFormat',
                   NumWorkers = 4, BatchSize = 1000\<rparr>)"

definition GetBankIdentifier :: "CSVBankRepository \<Rightarrow> string" where
  "GetBankIdentifier r = BankIdentifier r"

definition bankRowProcessorFn ::
  "Lib \<Rightarrow> (string \<times> nat) list \<Rightarrow> string \<Rightarrow> string \<Rightarrow> string list \<Rightarrow> BankTransaction list \<Rightarrow> BankTransaction list" where
  "bankRowProcessorFn lib columnMap dateFormat bankID row txns =
     (if int (length row) \<le> maxIndex columnMap then txns
      else case timeParse lib dateFormat (row ! col columnMap ''date'') of
        None \<Rightarrow> txns
      | Some txDate \<Rightarrow>
         (case NewFromString lib (row ! col columnMap ''amount'') of
            None \<Rightarrow> txns
          | Some amount \<Rightarrow>
              txns @ [\<lparr>UniqID = row ! col columnMap ''unique_identifier'', Amount = amount,
                       Date = txDate, BankID = bankID\<rparr>]))"

definition CSVBankRepository_GetTransactionsInRange ::
  "Lib \<Rightarrow> CSVBankRepository \<Rightarrow> Time \<Rightarrow> Time \<Rightarrow> error + BankTransaction list" where
  "CSVBankRepository_GetTransactionsInRange lib r startDate endDate =
     (let reader = csvFile lib (CSVBankRepository.FilePath r)
      in case ReadHeader reader of
           Inl err \<Rightarrow> Inl (Wrap ''reading bank statement header'' err)
         | Inr header \<Rightarrow>
            (case crateHeaderMap header bankHeaderFields of
               Inl err \<Rightarrow> Inl (Wrap ''mapping CSV columns'' err)
             | Inr columnMap \<Rightarrow>
                (case ReadAndProcessByRow reader
                        (bankRowProcessorFn lib columnMap (CSVBankRepository.DateFormat r)
                           (BankIdentifier r)) of
                   Inl err \<Rightarrow> Inl (Wrap ''processing bank transactions'' err)
                 | Inr txns \<Rightarrow>
                     Inr (filter (\<lambda>txn. inDateRange (Date txn) startDate endDate) txns))))"

definition readAndDistributeBankStatements :: "string list list \<Rightarrow> nat \<Rightarrow> string list list list" where
  "readAndDistributeBankStatements records batchSize = readAndDistribute records batchSize []"

text \<open>
  The body of a worker of \<^verbatim>\<open>startBankWorkers\<close> on one batch. The function receives
  \<open>startDate\<close> and \<open>endDate\<close> and its body does not read them.
\<close>

fun bankBatchResults ::
  "Lib \<Rightarrow> (string \<times> nat) list \<Rightarrow> string \<Rightarrow> string \<Rightarrow> Time \<Rightarrow> Time \<Rightarrow> string list list \<Rightarrow> BankTransaction list" where
  "bankBatchResults lib columnMap dateFormat bankID startDate endDate [] = []"
| "bankBatchResults lib columnMap dateFormat bankID startDate endDate (row # batch) =
     (let rest = bankBatchResults lib columnMap dateFormat bankID startDate endDate batch
      in if int (length row) \<le> maxIndex columnMap then rest
         else case timeParse lib dateFormat (row ! col columnMap ''date'') of
           None \<Rightarrow> rest
         | Some txDate \<Rightarrow>
            (case NewFromString lib (row ! col columnMap ''amount'') of
               None \<Rightarrow> rest
             | Some amount \<Rightarrow>
                 \<lparr>UniqID = row ! col columnMap ''unique_identifier'', Amount = amount,
                  Date = txDate, BankID = bankID\<rparr> # rest))"

definition startBankWorkers ::
  "Lib \<Rightarrow> (string \<times> nat) list \<Rightarrow> string \<Rightarrow> string \<Rightarrow> Time \<Rightarrow> Time \<Rightarrow> string list list list \<Rightarrow> BankTransaction list list" where
  "startBankWorkers lib columnMap dateFormat bankID startDate endDate jobs =
     filter (\<lambda>batchResults. length batchResults > 0)
       (map (bankBatchResults lib columnMap dateFormat bankID startDate endDate) jobs)"

definition collectBankTxnResults :: "nat list \<Rightarrow> BankTransaction list list \<Rightarrow> BankTransaction list" where
  "collectBankTxnResults schedule results = collectResults schedule results"

definition CSVBankRepository_GetTransactionsInRangeConcurrently ::
  "Lib \<Rightarrow> nat list \<Rightarrow> CSVBankRepository \<Rightarrow> Time \<Rightarrow> Time \<Rightarrow> error + BankTransaction list" where
  "CSVBankRepository_GetTransactionsInRangeConcurrently lib schedule r startDate endDate =
     (case csvFile lib (CSVBankRepository.FilePath r) of
        Inl err \<Rightarrow> Inl (Wrap ''opening csv file'' err)
      | Inr [] \<Rightarrow> Inl (Wrap ''reading system transaction header'' (Err ''EOF''))
      | Inr (header # records) \<Rightarrow>
         (case crateHeaderMap header bankHeaderFields of
            Inl err \<Rightarrow> Inl (Wrap ''mapping CSV column'' err)
          | Inr columnMap \<Rightarrow>
             (if CSVBankRepository.NumWorkers r = 0 then Inr []
              else let jobs = readAndDistributeBankStatements records (CSVBankRepository.BatchSize r);
                       results = startBankWorkers lib columnMap (CSVBankRepository.DateFormat r)
                                   (BankIdentifier r) startDate endDate jobs
                   in Inr (collectBankTxnResults schedule results))))"

section \<open>Reconciliation orchestrator (internal/service)\<close>

text \<open>
  \<^verbatim>\<open>UnMatchedBankTxns\<close> is a \<^verbatim>\<open>map[string][]BankTransaction\<close>; it is an association
  list with one entry per key, so that its entries can be counted.
\<close>

record ReconciliationResult =
  TotalTxnsProcessed :: int
  MatchedTxns :: "Match list"
  UnMatchedSystemTxns :: "SystemTransaction list"
  UnMatchedBankTxns :: "(string \<times> BankTransaction list) list"
  TotalDiscrepancies :: Decimal

text \<open>The zero value \<^verbatim>\<open>domain.ReconciliationResult{}\<close> returned beside every error.\<close>

definition emptyResult :: ReconciliationResult where
  "emptyResult = \<lparr>TotalTxnsProcessed = 0, MatchedTxns = [], UnMatchedSystemTxns = [],
                   UnMatchedBankTxns = [], TotalDiscrepancies = 0\<rparr>"

text \<open>
  The service holds its collaborators behind interfaces. A repository is given by its
  method \<^verbatim>\<open>GetTransactionsInRangeConcurrently\<close>, the matcher by \<^verbatim>\<open>FindMatches\<close>; a
  \<^verbatim>\<open>([]T, error)\<close> result is a sum. \<^verbatim>\<open>bankRepos\<close> is a Go map, iterated in an order the
  language leaves open: the list gives the entries in the order of that iteration.
\<close>

type_synonym SystemTransactionRepository = "Time \<Rightarrow> Time \<Rightarrow> error + SystemTransaction list"
type_synonym BankTransactionRepository = "Time \<Rightarrow> Time \<Rightarrow> error + BankTransaction list"
type_synonym TransactionMatcher = "SystemTransaction list \<Rightarrow> BankTransaction list \<Rightarrow> error + Match list"

record ReconciliationService =
  systemRepo :: SystemTransactionRepository
  bankRepos :: "(string \<times> BankTransactionRepository) list"
  matcher :: TransactionMatcher
  dateBuffer :: int

definition filterMatchesByDateRange :: "Match list \<Rightarrow> Time \<Rightarrow> Time \<Rightarrow> Match list" where
  "filterMatchesByDateRange matches startDate endDate =
     filter (\<lambda>match. inDateRange (TransactionTime (SystemTxn match)) startDate endDate) matches"

definition findUnmatchedSystemTransactions ::
  "SystemTransaction list \<Rightarrow> Match list \<Rightarrow> Time \<Rightarrow> Time \<Rightarrow> SystemTransaction list" where
  "findUnmatchedSystemTransactions systemTxns matches startDate endDate =
     (let matchedIDs = set (map (\<lambda>match. TrxID (SystemTxn match)) matches)
      in filter (\<lambda>txn. \<not> (TrxID txn \<in> matchedIDs)
                        \<and> inDateRange (TransactionTime txn) startDate endDate) systemTxns)"

text \<open>\<^verbatim>\<open>unmatched[txn.BankID] = append(unmatched[txn.BankID], txn)\<close>\<close>

fun appendUnmatched :: "string \<Rightarrow> BankTransaction \<Rightarrow> (string \<times> BankTransaction list) list
    \<Rightarrow> (string \<times> BankTransaction list) list" where
  "appendUnmatched k txn [] = [(k, [txn])]"
| "appendUnmatched k txn ((k', txns) # rest) =
     (if k = k' then (k', txns @ [txn]) # rest else (k', txns) # appendUnmatched k txn rest)"

fun unmatchedBankLoop :: "BankTransaction list \<Rightarrow> string set \<Rightarrow> Time \<Rightarrow> Time
    \<Rightarrow> (string \<times> BankTransaction list) list \<Rightarrow> (string \<times> BankTransaction list) list" where
  "unmatchedBankLoop [] matchedIDs startDate endDate unmatched = unmatched"
| "unmatchedBankLoop (txn # bankTxns) matchedIDs startDate endDate unmatched =
     (if bankKey txn \<in> matchedIDs
      then unmatchedBankLoop bankTxns matchedIDs startDate endDate unmatched
      else if inDateRange (Date txn) startDate endDate
      then unmatchedBankLoop bankTxns matchedIDs startDate endDate
             (appendUnmatched (BankID txn) txn unmatched)
      else unmatchedBankLoop bankTxns matchedIDs startDate endDate unmatched)"

definition findUnmatchedBankTransactions ::
  "BankTransaction list \<Rightarrow> Match list \<Rightarrow> Time \<Rightarrow> Time \<Rightarrow> (string \<times> BankTransaction list) list" where
  "findUnmatchedBankTransactions bankTxns matches startDate endDate =
     (let matchedIDs = set (map (\<lambda>match. bankKey (BankTxn match)) matches)
      in unmatchedBankLoop bankTxns matchedIDs startDate endDate [])"

definition calculateTotalDiscrepancies :: "Match list \<Rightarrow> Decimal" where
  "calculateTotalDiscrepancies matches = foldl (\<lambda>total match. total + AmmountDiff match) 0 matches"

definition countBankTransactions :: "(string \<times> BankTransaction list) list \<Rightarrow> int" where
  "countBankTransactions txnsByBank = foldl (\<lambda>count (k, txns). count + int (length txns)) 0 txnsByBank"

text \<open>The loop of \<^verbatim>\<open>Reconcile\<close> over the bank repositories; it returns at the first failing one.\<close>

fun fetchBankTxns :: "(string \<times> BankTransactionRepository) list \<Rightarrow> Time \<Rightarrow> Time
    \<Rightarrow> BankTransaction list \<Rightarrow> error + BankTransaction list" where
  "fetchBankTxns [] effectiveStartDate effectiveEndDate allBankTxns = Inr allBankTxns"
| "fetchBankTxns ((name, repo) # repos) effectiveStartDate effectiveEndDate allBankTxns =
     (case repo effectiveStartDate effectiveEndDate of
        Inl err \<Rightarrow> Inl (Wrap ''fetching bank transactions'' err)
      | Inr bankTxns \<Rightarrow>
          fetchBankTxns repos effectiveStartDate effectiveEndDate (allBankTxns @ bankTxns))"

text \<open>
  \<^verbatim>\<open>Reconcile\<close> returns the pair \<^verbatim>\<open>(domain.ReconciliationResult, error)\<close>; the second
  component is \<open>None\<close> for a nil error.
\<close>

definition Reconcile :: "ReconciliationService \<Rightarrow> Time \<Rightarrow> Time \<Rightarrow> ReconciliationResult \<times> error option" where
  "Reconcile s startDate endDate =
     (let effectiveStartDate = AddDate startDate (- dateBuffer s);
          effectiveEndDate = AddDate endDate (dateBuffer s)
      in case systemRepo s effectiveStartDate effectiveEndDate of
           Inl err \<Rightarrow> (emptyResult, Some (Wrap ''fetching system transactions'' err))
         | Inr systemTxns \<Rightarrow>
            (case fetchBankTxns (bankRepos s) effectiveStartDate effectiveEndDate [] of
               Inl err \<Rightarrow> (emptyResult, Some err)
             | Inr allBankTxns \<Rightarrow>
                (case matcher s systemTxns allBankTxns of
                   Inl err \<Rightarrow> (emptyResult, Some (Wrap ''matching transactions'' err))
                 | Inr matches \<Rightarrow>
                    (let filteredMatches = filterMatchesByDateRange matches startDate endDate;
                         unmatchedSystemTxns =
                           findUnmatchedSystemTransactions systemTxns filteredMatches startDate endDate;
                         unmatchedBankTxns =
                           findUnmatchedBankTransactions allBankTxns filteredMatches startDate endDate;
                         totalDiscrepancies = calculateTotalDiscrepancies filteredMatches
                     in (\<lparr>TotalTxnsProcessed = int (length filteredMatches)
                                                  + int (length unmatchedSystemTxns)
                                                  + countBankTransactions unmatchedBankTxns,
                          MatchedTxns = filteredMatches,
                          UnMatchedSystemTxns = unmatchedSystemTxns,
                          UnMatchedBankTxns = unmatchedBankTxns,
                          TotalDiscrepancies = totalDiscrepancies\<rparr>, None)))))"

section \<open>Example data\<close>

text \<open>
  Instants of January 2025 (UTC): January 1, 2025 is 739251 days after the zero time.
\<close>

definition jan2025 :: "int \<Rightarrow> int \<Rightarrow> int \<Rightarrow> Time" where
  "jan2025 d h m = (739251 + (d - 1)) * hours24 + (h * 3600 + m * 60) * 1000000000"

definition exT1 :: SystemTransaction where
  "exT1 = \<lparr>TrxID = ''T1'', Amount = 100000.50, Type = Credit, TransactionTime = jan2025 15 14 30\<rparr>"

definition exT1b :: SystemTransaction where
  "exT1b = \<lparr>TrxID = ''T1b'', Amount = 100000.50, Type = Credit, TransactionTime = jan2025 15 18 0\<rparr>"

definition exT2 :: SystemTransaction where
  "exT2 = \<lparr>TrxID = ''T2'', Amount = 50.25, Type = Debit, TransactionTime = jan2025 16 9 15\<rparr>"

definition exT3 :: SystemTransaction where
  "exT3 = \<lparr>TrxID = ''T3'', Amount = 75000, Type = Credit, TransactionTime = jan2025 17 11 45\<rparr>"

definition exT4 :: SystemTransaction where
  "exT4 = \<lparr>TrxID = ''T4'', Amount = 200000, Type = Debit, TransactionTime = jan2025 18 16 20\<rparr>"

definition exT5 :: SystemTransaction where
  "exT5 = \<lparr>TrxID = ''T5'', Amount = 100000.50, Type = Credit, TransactionTime = jan2025 14 23 55\<rparr>"

definition exTUnknown :: SystemTransaction where
  "exTUnknown = \<lparr>TrxID = ''T6'', Amount = 42, Type = ''debit'', TransactionTime = jan2025 15 8 0\<rparr>"

definition exTEmpty :: SystemTransaction where
  "exTEmpty = \<lparr>TrxID = ''T7'', Amount = 42, Type = '''', TransactionTime = jan2025 15 8 0\<rparr>"

definition exS0 :: BankTransaction where
  "exS0 = \<lparr>UniqID = ''S0'', Amount = 100000.53, Date = jan2025 15 0 0, BankID = ''bca''\<rparr>"

definition exS1 :: BankTransaction where
  "exS1 = \<lparr>UniqID = ''S1'', Amount = 100000.50, Date = jan2025 15 0 0, BankID = ''bca''\<rparr>"

definition exS1b :: BankTransaction where
  "exS1b = \<lparr>UniqID = ''S1b'', Amount = 100000.50, Date = jan2025 15 0 0, BankID = ''bca''\<rparr>"

definition exS2 :: BankTransaction where
  "exS2 = \<lparr>UniqID = ''S2'', Amount = - 50.25, Date = jan2025 16 0 0, BankID = ''bca''\<rparr>"

definition exS3 :: BankTransaction where
  "exS3 = \<lparr>UniqID = ''S3'', Amount = 999, Date = jan2025 17 0 0, BankID = ''bca''\<rparr>"

definition exS4 :: BankTransaction where
  "exS4 = \<lparr>UniqID = ''S4'', Amount = 12, Date = jan2025 18 0 0, BankID = ''bca''\<rparr>"

definition exS5 :: BankTransaction where
  "exS5 = \<lparr>UniqID = ''S5'', Amount = - 200000, Date = jan2025 18 0 0, BankID = ''bca''\<rparr>"

definition exM1 :: Match where
  "exM1 = \<lparr>SystemTxn = exT1, BankTxn = exS1, AmmountDiff = 0\<rparr>"

definition exM2 :: Match where
  "exM2 = \<lparr>SystemTxn = exT2, BankTxn = exS2, AmmountDiff = 0\<rparr>"

text \<open>
  A service over repositories that return fixed lists, as the mock repositories of the
  service test do. The requested window is January 15 to 17; with a buffer of one day
  the repositories also deliver the transactions of January 18.
\<close>

definition exSvc :: ReconciliationService where
  "exSvc = \<lparr>systemRepo = (\<lambda>startDate endDate. Inr [exT1, exT2, exT3, exT4]),
            bankRepos = [(''bca'', \<lambda>startDate endDate. Inr [exS1, exS2, exS3, exS4, exS5])],
            matcher = FindMatches (NewDefaultMatcher []),
            dateBuffer = 1\<rparr>"

definition exStart :: Time where
  "exStart = jan2025 15 0 0"

definition exEnd :: Time where
  "exEnd = jan2025 17 23 59"

definition exResult :: ReconciliationResult where
  "exResult = \<lparr>TotalTxnsProcessed = 4, MatchedTxns = [exM1, exM2], UnMatchedSystemTxns = [exT3],
               UnMatchedBankTxns = [(''bca'', [exS3])], TotalDiscrepancies = 0\<rparr>"

text \<open>
  CSV files. \<open>exParse\<close> stands for \<^verbatim>\<open>time.Parse\<close> on the two dates that occur:
  March 1, 2025 is 739310 days after the zero time.
\<close>

definition exParse :: "string \<Rightarrow> string \<Rightarrow> Time option" where
  "exParse layout v =
     (if layout = ''2006-01-02'' \<and> v = ''2025-01-15'' then Some (jan2025 15 0 0)
      else if layout = ''2006-01-02'' \<and> v = ''2025-03-01'' then Some (739310 * hours24)
      else None)"

definition exDecimal :: "string \<Rightarrow> Decimal option" where
  "exDecimal v = (if v = ''10.00'' then Some 10 else if v = ''100000.50'' then Some 100000.50 else None)"



definition exBankRepo :: CSVBankRepository where
  "exBankRepo = \<lparr>FilePath = ''bca.csv'', BankIdentifier = ''bca'', DateFormat = ''2006-01-02'',
                 NumWorkers = 4, BatchSize = 1000\<rparr>"

definition exBniRepo :: CSVBankRepository where
  "exBniRepo = \<lparr>FilePath = ''bni.csv'', BankIdentifier = ''bni'', DateFormat = ''2006-01-02'',
                NumWorkers = 4, BatchSize = 1000\<rparr>"

definition exS9 :: BankTransaction where
  "exS9 = \<lparr>UniqID = ''S9'', Amount = 10, Date = 739310 * hours24, BankID = ''bca''\<rparr>"

text \<open>
  Two file systems for a service over the CSV repositories with the bank feeds
  \<open>bca.csv\<close> and \<open>bni.csv\<close>: in the first \<open>bca.csv\<close> is an empty file, in the second
  \<open>bni.csv\<close> is; every other file holds its header only. In the third the system file
  cannot be opened.
\<close>

definition exFiles :: "string \<Rightarrow> string \<Rightarrow> error + string list list" where
  "exFiles emptyFile path =
     (if path = emptyFile then Inr []
      else if path = ''system.csv'' then Inr [[''trxID'', ''amount'', ''type'', ''transactionTime'']]
      else if path = ''bca.csv'' \<or> path = ''bni.csv'' then Inr [[''unique_identifier'', ''amount'', ''date'']]
      else Inl (Err (''open '' @ path @ '': no such file or directory'')))"

definition exLibEmpty :: "string \<Rightarrow> Lib" where
  "exLibEmpty emptyFile = \<lparr>timeParse = exParse, NewFromString = exDecimal, csvFile = exFiles emptyFile\<rparr>"

definition exLibNoSystem :: Lib where
  "exLibNoSystem = \<lparr>timeParse = exParse, NewFromString = exDecimal,
                    csvFile = (\<lambda>path. Inl (Err (''open '' @ path @ '': no such file or directory'')))\<rparr>"

definition exCsvSvc :: "Lib \<Rightarrow> ReconciliationService" where
  "exCsvSvc lib =
     \<lparr>systemRepo = CSVSystemRepository_GetTransactionsInRangeConcurrently lib []
                     (NewCSVSystemRepository ''system.csv'' ''''),
      bankRepos = [(''bca'', CSVBankRepository_GetTransactionsInRangeConcurrently lib [] exBankRepo),
                   (''bni'', CSVBankRepository_GetTransactionsInRangeConcurrently lib [] exBniRepo)],
      matcher = FindMatches (NewDefaultMatcher []),
      dateBuffer = 1\<rparr>"

definition exOpenError :: error where
  "exOpenError = Wrap ''opening csv file'' (Err ''open system.csv: no such file or directory'')"

definition exFeedError :: error where
  "exFeedError = Wrap ''fetching bank transactions'' (Wrap ''reading system transaction header'' (Err ''EOF''))"

section \<open>Facts about the library model\<close>

lemma Truncate_AddDate: "Truncate (AddDate t n) hours24 = Truncate t hours24 + n * hours24"
  by (simp add: Truncate_def AddDate_def hours24_def)

lemma inDateRange_iff:
  "inDateRange t s e \<longleftrightarrow>
     Truncate s hours24 \<le> Truncate t hours24 \<and> Truncate t hours24 \<le> Truncate e hours24"
  by (auto simp: inDateRange_def Let_def)

lemmas ex_txn_defs =
  exT1_def exT1b_def exT2_def exT3_def exT4_def exT5_def exTUnknown_def exTEmpty_def
  exS0_def exS1_def exS1b_def exS2_def exS3_def exS4_def exS5_def exS9_def exM1_def exM2_def
  jan2025_def hours24_def Debit_def Credit_def

lemmas matcher_defs =
  FindMatches_def NewDefaultMatcher_def NewExactMatchStrategy_def NewFuzzyMatchStrategy_def
  NewDateBufferMatchStrategy_def defaultAmountThreshold_def defaultDaysBuffer_def
  Truncate_def AddDate_def bankKey_def getNormalizedAmount_def Let_def

lemmas csv_defs =
  CSVSystemRepository_GetTransactionsInRangeConcurrently_def
  CSVBankRepository_GetTransactionsInRangeConcurrently_def
  CSVBankRepository_GetTransactionsInRange_def
  NewCSVSystemRepository_def ReadHeader_def ReadAndProcessByRow_def
  systemHeaderFields_def bankHeaderFields_def EqualFold_def toLowerASCII_def
  readAndDistributeSystemTxns_def readAndDistributeBankStatements_def
  startWorkers_def startBankWorkers_def collectResults_def collectBankTxnResults_def
  bankRowProcessorFn_def maxIndex_def col_def inDateRange_def

section \<open>Properties of the strategies\<close>

lemma ExactMatch_find:
  "ExactMatch s cs =
     find (\<lambda>b. Truncate (Date b) hours24 = Truncate (TransactionTime s) hours24
              \<and> BankTransaction.Amount b = getNormalizedAmount s) cs"
  by (induction cs) (simp_all add: Let_def)

lemma FuzzyMatch_find:
  "FuzzyMatch th s cs =
     find (\<lambda>b. Truncate (Date b) hours24 = Truncate (TransactionTime s) hours24
              \<and> \<bar>getNormalizedAmount s - BankTransaction.Amount b\<bar> \<le> th) cs"
  by (induction cs) (simp_all add: Let_def not_less)

lemma DateBufferMatch_find:
  "DateBufferMatch n s cs =
     find (\<lambda>b. Truncate (TransactionTime s) hours24 - n * hours24 \<le> Truncate (Date b) hours24
              \<and> Truncate (Date b) hours24 \<le> Truncate (TransactionTime s) hours24 + n * hours24
              \<and> BankTransaction.Amount b = getNormalizedAmount s) cs"
  by (induction cs) (auto simp add: Let_def Truncate_AddDate)



text \<open>
  C5. For a system transaction of type Credit the normalized amount is its amount; for
  one of type Debit it is the negated amount.
\<close>

theorem getNormalizedAmount_credit_debit:
  "(Type sysTxn = Credit \<longrightarrow> getNormalizedAmount sysTxn = SystemTransaction.Amount sysTxn)
 \<and> (Type sysTxn = Debit \<longrightarrow> getNormalizedAmount sysTxn = - SystemTransaction.Amount sysTxn)"
  by (simp add: getNormalizedAmount_def Debit_def Credit_def)

theorem getNormalizedAmount_credit_debit_witness:
  "Type exT1 = Credit \<and> getNormalizedAmount exT1 = 100000.50
 \<and> Type exT2 = Debit \<and> getNormalizedAmount exT2 = - 50.25"
  using getNormalizedAmount_credit_debit [of exT1] getNormalizedAmount_credit_debit [of exT2]
  by (simp add: exT1_def exT2_def)

lemma Match_strategy_depends_on_normalized_amount:
  "getNormalizedAmount s = getNormalizedAmount s' \<Longrightarrow> TransactionTime s = TransactionTime s' \<Longrightarrow>
   Match_strategy strategy s cs = Match_strategy strategy s' cs"
  by (cases strategy) (simp_all add: ExactMatch_find FuzzyMatch_find DateBufferMatch_find)

text \<open>
  C8. \<open>getNormalizedAmount\<close> negates only for the type Debit: for every other type
  value, an invalid or empty string included, it returns the stored amount, which is
  what it returns for the same transaction typed Credit, so that every strategy treats
  such a transaction as it treats the Credit one; and a result that is the negation of
  a non-zero amount occurs for the type Debit only.
\<close>

theorem getNormalizedAmount_only_debit_negates:
  "(Type sysTxn \<noteq> Debit \<longrightarrow>
      getNormalizedAmount sysTxn = SystemTransaction.Amount sysTxn
    \<and> getNormalizedAmount sysTxn = getNormalizedAmount (sysTxn\<lparr>Type := Credit\<rparr>)
    \<and> Match_strategy strategy sysTxn bankTxns = Match_strategy strategy (sysTxn\<lparr>Type := Credit\<rparr>) bankTxns)
 \<and> (getNormalizedAmount sysTxn = - SystemTransaction.Amount sysTxn
      \<and> SystemTransaction.Amount sysTxn \<noteq> 0 \<longrightarrow> Type sysTxn = Debit)"
proof -
  have 1: "getNormalizedAmount sysTxn = SystemTransaction.Amount sysTxn"
    and 2: "getNormalizedAmount sysTxn = getNormalizedAmount (sysTxn\<lparr>Type := Credit\<rparr>)"
    if "Type sysTxn \<noteq> Debit"
    using that by (simp_all add: getNormalizedAmount_def Debit_def Credit_def)
  have 3: "Match_strategy strategy sysTxn bankTxns
             = Match_strategy strategy (sysTxn\<lparr>Type := Credit\<rparr>) bankTxns"
    if "Type sysTxn \<noteq> Debit"
    using 2 [OF that] by (intro Match_strategy_depends_on_normalized_amount) simp_all
  have 4: "Type sysTxn = Debit"
    if "getNormalizedAmount sysTxn = - SystemTransaction.Amount sysTxn"
      and "SystemTransaction.Amount sysTxn \<noteq> 0"
    using that by (auto simp: getNormalizedAmount_def split: if_splits)
  from 1 2 3 4 show ?thesis by blast
qed

theorem getNormalizedAmount_only_debit_negates_witness:
  "Type exTEmpty \<noteq> Debit \<and> getNormalizedAmount exTEmpty = 42
 \<and> Type exTUnknown \<noteq> Debit \<and> getNormalizedAmount exTUnknown = 42
 \<and> getNormalizedAmount exT2 = - SystemTransaction.Amount exT2
 \<and> SystemTransaction.Amount exT2 \<noteq> 0 \<and> Type exT2 = Debit"
  using getNormalizedAmount_only_debit_negates [of exTEmpty ExactMatchStrategy "[]"]
    getNormalizedAmount_only_debit_negates [of exTUnknown ExactMatchStrategy "[]"]
    getNormalizedAmount_only_debit_negates [of exT2 ExactMatchStrategy "[]"]
  by (simp add: exTEmpty_def exTUnknown_def exT2_def Debit_def getNormalizedAmount_def)






section \<open>Properties of the match orchestrator\<close>

lemma ExactMatch_mem: "ExactMatch s cs = Some b \<Longrightarrow> b \<in> set cs"
  by (induction cs) (auto simp: Let_def split: if_splits)

lemma FuzzyMatch_mem: "FuzzyMatch th s cs = Some b \<Longrightarrow> b \<in> set cs"
  by (induction cs) (auto simp: Let_def split: if_splits)

lemma DateBufferMatch_mem: "DateBufferMatch n s cs = Some b \<Longrightarrow> b \<in> set cs"
  by (induction cs) (auto simp: Let_def split: if_splits)

lemma Match_strategy_mem: "Match_strategy st s cs = Some b \<Longrightarrow> b \<in> set cs"
  by (cases st) (auto dest: ExactMatch_mem FuzzyMatch_mem DateBufferMatch_mem)

text \<open>A strategy can only return a bank transaction whose key is not claimed yet.\<close>

lemma tryStrategies_available:
  "tryStrategies sts s bank mk = Some b \<Longrightarrow> b \<in> set bank \<and> bankKey b \<notin> mk"
proof (induction sts)
  case Nil
  then show ?case by simp
next
  case (Cons st sts)
  show ?case
  proof (cases "Match_strategy st s (filter (\<lambda>bankTxn. \<not> (bankKey bankTxn \<in> mk)) bank)")
    case None
    with Cons show ?thesis by simp
  next
    case (Some b')
    with Cons.prems have "b' = b" by simp
    with Some have "b \<in> set (filter (\<lambda>bankTxn. \<not> (bankKey bankTxn \<in> mk)) bank)"
      using Match_strategy_mem by blast
    then show ?thesis by simp
  qed
qed

lemma matchLoop_keys_fresh:
  "m \<in> set (matchLoop sts sys bank mk) \<Longrightarrow> bankKey (BankTxn m) \<notin> mk \<and> BankTxn m \<in> set bank"
proof (induction sys arbitrary: mk)
  case Nil
  then show ?case by simp
next
  case (Cons s sys)
  show ?case
  proof (cases "tryStrategies sts s bank mk")
    case None
    with Cons show ?thesis by simp
  next
    case (Some b)
    note av = tryStrategies_available [OF Some]
    from Cons.prems Some
    consider "m = \<lparr>SystemTxn = s, BankTxn = b, AmmountDiff = \<bar>getNormalizedAmount s - BankTransaction.Amount b\<bar>\<rparr>"
      | "m \<in> set (matchLoop sts sys bank (insert (bankKey b) mk))"
      by (auto simp: Let_def)
    then show ?thesis
    proof cases
      case 1
      with av show ?thesis by simp
    next
      case 2
      from Cons.IH [OF 2] show ?thesis by simp
    qed
  qed
qed

lemma matchLoop_distinct_keys:
  "distinct (map (\<lambda>m. bankKey (BankTxn m)) (matchLoop sts sys bank mk))"
proof (induction sys arbitrary: mk)
  case Nil
  then show ?case by simp
next
  case (Cons s sys)
  show ?case
  proof (cases "tryStrategies sts s bank mk")
    case None
    with Cons show ?thesis by simp
  next
    case (Some b)
    have "bankKey b \<notin> (\<lambda>m. bankKey (BankTxn m)) ` set (matchLoop sts sys bank (insert (bankKey b) mk))"
      using matchLoop_keys_fresh by fastforce
    with Some Cons.IH show ?thesis by (simp add: Let_def)
  qed
qed

lemma matchLoop_subseq:
  "subseq (map SystemTxn (matchLoop sts sys bank mk)) sys"
proof (induction sys arbitrary: mk)
  case Nil
  then show ?case by simp
next
  case (Cons s sys)
  then show ?case by (cases "tryStrategies sts s bank mk") (auto simp add: Let_def)
qed

text \<open>Two matches with the same (BankID, UniqID) pair would have the same key.\<close>

lemma distinct_keys_pairs:
  assumes d: "distinct (map (\<lambda>m. bankKey (BankTxn m)) ms)"
  shows "distinct (map (\<lambda>m. (BankID (BankTxn m), UniqID (BankTxn m))) ms)"
proof -
  have eq: "map (\<lambda>m. bankKey (BankTxn m)) ms
        = map (\<lambda>p. fst p @ ''-'' @ snd p) (map (\<lambda>m. (BankID (BankTxn m), UniqID (BankTxn m))) ms)"
    by (simp add: bankKey_def)
  from d have "distinct (map (\<lambda>p. fst p @ ''-'' @ snd p) (map (\<lambda>m. (BankID (BankTxn m), UniqID (BankTxn m))) ms))"
    unfolding eq .
  then show ?thesis
    using distinct_map [of "\<lambda>p. fst p @ ''-'' @ snd p" "map (\<lambda>m. (BankID (BankTxn m), UniqID (BankTxn m))) ms"]
    by blast
qed

text \<open>
  C2. \<open>FindMatches\<close> returns a list of matches in which no two matches have the same
  (BankID, UniqID) pair of the statement record, and whose ledger records, in order, are
  a subsequence of the given ledger list: every ledger record of the input, taken by
  its position, is in at most one match.
\<close>

theorem FindMatches_at_most_one:
  "\<exists>ms. FindMatches strategies systemTxns bankTxns = Inr ms
      \<and> distinct (map (\<lambda>m. (BankID (BankTxn m), UniqID (BankTxn m))) ms)
      \<and> subseq (map SystemTxn ms) systemTxns"
  unfolding FindMatches_def
  by (simp add: distinct_keys_pairs matchLoop_distinct_keys matchLoop_subseq)

text \<open>
  Two ledger records that both qualify for the single statement record \<open>S1\<close>: the
  first one in ledger order gets it and the second stays unmatched.
\<close>

lemma FindMatches_example:
  "FindMatches (NewDefaultMatcher []) [exT1, exT1b] [exS1] = Inr [exM1]"
  by (simp add: ex_txn_defs matcher_defs)

theorem FindMatches_at_most_one_witness:
  "FindMatches (NewDefaultMatcher []) [exT1, exT1b] [exS1] = Inr [exM1]
 \<and> distinct (map (\<lambda>m. (BankID (BankTxn m), UniqID (BankTxn m))) [exM1])
 \<and> subseq (map SystemTxn [exM1]) [exT1, exT1b]"
  using FindMatches_at_most_one [of "NewDefaultMatcher []" "[exT1, exT1b]" "[exS1]"]
  by (auto simp: FindMatches_example)

text \<open>A ledger list without repetition yields matches without repeated ledger record.\<close>

lemma FindMatches_distinct_ledger:
  "distinct systemTxns \<Longrightarrow> FindMatches strategies systemTxns bankTxns = Inr ms \<Longrightarrow>
   distinct (map SystemTxn ms)"
  using matchLoop_subseq [of strategies systemTxns bankTxns "{}"]
  by (auto simp: FindMatches_def subseq_conv_nths)

section \<open>Properties of the reconciliation orchestrator\<close>

lemma appendUnmatched_inv:
  "\<forall>(k, l) \<in> set acc. \<forall>t \<in> set l. P t \<Longrightarrow> P txn \<Longrightarrow>
   \<forall>(k, l) \<in> set (appendUnmatched k0 txn acc). \<forall>t \<in> set l. P t"
  by (induction acc) (fastforce split: if_splits)+

lemma unmatchedBankLoop_inv:
  "\<forall>(k, l) \<in> set acc. \<forall>t \<in> set l. inDateRange (Date t) s e \<Longrightarrow>
   \<forall>(k, l) \<in> set (unmatchedBankLoop bankTxns ids s e acc). \<forall>t \<in> set l. inDateRange (Date t) s e"
proof (induction bankTxns arbitrary: acc)
  case Nil
  then show ?case by simp
next
  case (Cons txn bankTxns)
  show ?case
  proof (cases "bankKey txn \<notin> ids \<and> inDateRange (Date txn) s e")
    case True
    then have "\<forall>(k, l) \<in> set (appendUnmatched (BankID txn) txn acc). \<forall>t \<in> set l. inDateRange (Date t) s e"
      using Cons.prems by (intro appendUnmatched_inv) auto
    from Cons.IH [OF this] True show ?thesis by simp
  next
    case False
    with Cons.IH [OF Cons.prems] show ?thesis by auto
  qed
qed

lemma findUnmatchedBankTransactions_inRange:
  "\<forall>(k, l) \<in> set (findUnmatchedBankTransactions bankTxns matches s e). \<forall>t \<in> set l. inDateRange (Date t) s e"
  unfolding findUnmatchedBankTransactions_def Let_def
  by (rule unmatchedBankLoop_inv) simp

text \<open>The two ways in which \<open>Reconcile\<close> returns.\<close>

lemma Reconcile_cases:
  "(\<exists>err. Reconcile svc s e = (emptyResult, Some err)) \<or>
   (\<exists>systemTxns allBankTxns matches.
      MatchedTxns (fst (Reconcile svc s e)) = filterMatchesByDateRange matches s e
    \<and> UnMatchedSystemTxns (fst (Reconcile svc s e)) =
        findUnmatchedSystemTransactions systemTxns (filterMatchesByDateRange matches s e) s e
    \<and> UnMatchedBankTxns (fst (Reconcile svc s e)) =
        findUnmatchedBankTransactions allBankTxns (filterMatchesByDateRange matches s e) s e)"
  unfolding Reconcile_def Let_def
  by (auto split: sum.splits)

text \<open>
  C3. Whatever the repositories deliver over the widened window and whatever the
  matcher returns, the result of \<open>Reconcile\<close> holds no match whose system transaction,
  no unmatched system transaction and no unmatched bank transaction whose own date,
  truncated to the day, lies before the day of \<open>startDate\<close> or after the day of
  \<open>endDate\<close>.
\<close>

theorem Reconcile_narrows_to_requested_window:
  "(\<forall>m \<in> set (MatchedTxns (fst (Reconcile svc startDate endDate))).
      Truncate startDate hours24 \<le> Truncate (TransactionTime (SystemTxn m)) hours24
    \<and> Truncate (TransactionTime (SystemTxn m)) hours24 \<le> Truncate endDate hours24)
 \<and> (\<forall>t \<in> set (UnMatchedSystemTxns (fst (Reconcile svc startDate endDate))).
      Truncate startDate hours24 \<le> Truncate (TransactionTime t) hours24
    \<and> Truncate (TransactionTime t) hours24 \<le> Truncate endDate hours24)
 \<and> (\<forall>(bank, txns) \<in> set (UnMatchedBankTxns (fst (Reconcile svc startDate endDate))).
      \<forall>t \<in> set txns.
        Truncate startDate hours24 \<le> Truncate (Date t) hours24
      \<and> Truncate (Date t) hours24 \<le> Truncate endDate hours24)"
proof -
  consider (err) err where "Reconcile svc startDate endDate = (emptyResult, Some err)"
    | (ok) systemTxns allBankTxns matches where
        "MatchedTxns (fst (Reconcile svc startDate endDate)) = filterMatchesByDateRange matches startDate endDate"
        "UnMatchedSystemTxns (fst (Reconcile svc startDate endDate)) =
           findUnmatchedSystemTransactions systemTxns (filterMatchesByDateRange matches startDate endDate) startDate endDate"
        "UnMatchedBankTxns (fst (Reconcile svc startDate endDate)) =
           findUnmatchedBankTransactions allBankTxns (filterMatchesByDateRange matches startDate endDate) startDate endDate"
    using Reconcile_cases [of svc startDate endDate] by blast
  then show ?thesis
  proof cases
    case err
    then show ?thesis by (simp add: emptyResult_def)
  next
    case ok
    have m: "\<forall>m \<in> set (filterMatchesByDateRange matches startDate endDate).
               inDateRange (TransactionTime (SystemTxn m)) startDate endDate"
      by (simp add: filterMatchesByDateRange_def)
    have u: "\<forall>t \<in> set (findUnmatchedSystemTransactions systemTxns
                 (filterMatchesByDateRange matches startDate endDate) startDate endDate).
               inDateRange (TransactionTime t) startDate endDate"
      by (simp add: findUnmatchedSystemTransactions_def Let_def)
    note b = findUnmatchedBankTransactions_inRange
               [of allBankTxns "filterMatchesByDateRange matches startDate endDate" startDate endDate]
    from m u b show ?thesis
      unfolding ok inDateRange_iff by blast
  qed
qed

text \<open>
  A run over the window January 15 to 17 with a buffer of one day. The repositories
  deliver transactions of January 18 too; \<open>T4\<close> and \<open>S5\<close> of that day match each other,
  \<open>S4\<close> of that day matches nothing, and none of the three is in the result.
\<close>

lemma Reconcile_example: "Reconcile exSvc exStart exEnd = (exResult, None)"
  by (simp add: Reconcile_def exSvc_def exStart_def exEnd_def exResult_def ex_txn_defs matcher_defs
      inDateRange_def filterMatchesByDateRange_def findUnmatchedSystemTransactions_def
      findUnmatchedBankTransactions_def calculateTotalDiscrepancies_def countBankTransactions_def)

theorem Reconcile_narrows_to_requested_window_witness:
  "MatchedTxns (fst (Reconcile exSvc exStart exEnd)) = [exM1, exM2]
 \<and> UnMatchedSystemTxns (fst (Reconcile exSvc exStart exEnd)) = [exT3]
 \<and> UnMatchedBankTxns (fst (Reconcile exSvc exStart exEnd)) = [(''bca'', [exS3])]
 \<and> Truncate exStart hours24 \<le> Truncate (TransactionTime (SystemTxn exM1)) hours24
 \<and> Truncate (TransactionTime (SystemTxn exM2)) hours24 \<le> Truncate exEnd hours24
 \<and> Truncate exStart hours24 \<le> Truncate (TransactionTime exT3) hours24
 \<and> Truncate (TransactionTime exT3) hours24 \<le> Truncate exEnd hours24
 \<and> Truncate exStart hours24 \<le> Truncate (Date exS3) hours24
 \<and> Truncate (Date exS3) hours24 \<le> Truncate exEnd hours24"
  using Reconcile_narrows_to_requested_window [of exSvc exStart exEnd]
  by (simp add: Reconcile_example exResult_def)


lemma fetchBankTxns_fails:
  "\<exists>(name, repo) \<in> set repos. \<exists>err. repo S E = Inl err \<Longrightarrow>
   \<exists>(name, repo) \<in> set repos. \<exists>err. repo S E = Inl err
      \<and> fetchBankTxns repos S E acc = Inl (Wrap ''fetching bank transactions'' err)"
proof (induction repos arbitrary: acc)
  case Nil
  then show ?case by simp
next
  case (Cons p repos)
  obtain name repo where p: "p = (name, repo)" by (cases p)
  show ?case
  proof (cases "repo S E")
    case (Inl err)
    with p show ?thesis by auto
  next
    case (Inr txns)
    with Cons.prems p have "\<exists>(name, repo) \<in> set repos. \<exists>err. repo S E = Inl err" by auto
    from Cons.IH [OF this, of "acc @ txns"] Inr p show ?thesis by auto
  qed
qed

text \<open>
  C7, as the code has it. When the system feed fails, \<open>Reconcile\<close> returns the empty
  result and the feed's error wrapped as "fetching system transactions". When the system
  feed succeeds and some bank feed fails, it returns the empty result and the error of
  a failing bank feed wrapped as "fetching bank transactions". The wrapper tells the system side from the bank side; nothing in
  it names the bank feed.
\<close>

theorem Reconcile_feed_failure_aborts:
  "(systemRepo svc (AddDate startDate (- dateBuffer svc)) (AddDate endDate (dateBuffer svc)) = Inl err
      \<longrightarrow> Reconcile svc startDate endDate
            = (emptyResult, Some (Wrap ''fetching system transactions'' err)))
 \<and> (systemRepo svc (AddDate startDate (- dateBuffer svc)) (AddDate endDate (dateBuffer svc)) = Inr systemTxns
      \<and> (\<exists>(name, repo) \<in> set (bankRepos svc). \<exists>err'.
            repo (AddDate startDate (- dateBuffer svc)) (AddDate endDate (dateBuffer svc)) = Inl err')
      \<longrightarrow> (\<exists>(name, repo) \<in> set (bankRepos svc). \<exists>err'.
            repo (AddDate startDate (- dateBuffer svc)) (AddDate endDate (dateBuffer svc)) = Inl err'
          \<and> Reconcile svc startDate endDate
              = (emptyResult, Some (Wrap ''fetching bank transactions'' err'))))"
proof (intro conjI impI)
  assume "systemRepo svc (AddDate startDate (- dateBuffer svc)) (AddDate endDate (dateBuffer svc)) = Inl err"
  then show "Reconcile svc startDate endDate = (emptyResult, Some (Wrap ''fetching system transactions'' err))"
    by (simp add: Reconcile_def Let_def)
next
  let ?S = "AddDate startDate (- dateBuffer svc)" and ?E = "AddDate endDate (dateBuffer svc)"
  assume a: "systemRepo svc ?S ?E = Inr systemTxns
      \<and> (\<exists>(name, repo) \<in> set (bankRepos svc). \<exists>err'. repo ?S ?E = Inl err')"
  then have "\<exists>(name, repo) \<in> set (bankRepos svc). \<exists>err'. repo ?S ?E = Inl err'
      \<and> fetchBankTxns (bankRepos svc) ?S ?E [] = Inl (Wrap ''fetching bank transactions'' err')"
    by (intro fetchBankTxns_fails) simp
  then obtain name repo err' where
    mem: "(name, repo) \<in> set (bankRepos svc)" and f: "repo ?S ?E = Inl err'"
    and fb: "fetchBankTxns (bankRepos svc) ?S ?E [] = Inl (Wrap ''fetching bank transactions'' err')"
    by auto
  from a fb have "Reconcile svc startDate endDate = (emptyResult, Some (Wrap ''fetching bank transactions'' err'))"
    by (simp add: Reconcile_def Let_def)
  with mem f show "\<exists>(name, repo) \<in> set (bankRepos svc). \<exists>err'. repo ?S ?E = Inl err'
          \<and> Reconcile svc startDate endDate = (emptyResult, Some (Wrap ''fetching bank transactions'' err'))"
    by auto
qed

text \<open>The feeds of the service over the CSV repositories, on the three file systems.\<close>

lemma exCsvSvc_system_feed:
  "systemRepo (exCsvSvc exLibNoSystem) S E = Inl exOpenError"
  "systemRepo (exCsvSvc (exLibEmpty ''bca.csv'')) S E = Inr []"
  "systemRepo (exCsvSvc (exLibEmpty ''bni.csv'')) S E = Inr []"
  by (simp_all add: exCsvSvc_def exLibNoSystem_def exLibEmpty_def exFiles_def exOpenError_def csv_defs)

lemma exCsvSvc_bank_feeds:
  "CSVBankRepository_GetTransactionsInRangeConcurrently (exLibEmpty ''bca.csv'') [] exBankRepo S E
     = Inl (Wrap ''reading system transaction header'' (Err ''EOF''))"
  "CSVBankRepository_GetTransactionsInRangeConcurrently (exLibEmpty ''bca.csv'') [] exBniRepo S E = Inr []"
  "CSVBankRepository_GetTransactionsInRangeConcurrently (exLibEmpty ''bni.csv'') [] exBankRepo S E = Inr []"
  "CSVBankRepository_GetTransactionsInRangeConcurrently (exLibEmpty ''bni.csv'') [] exBniRepo S E
     = Inl (Wrap ''reading system transaction header'' (Err ''EOF''))"
  by (simp_all add: exLibEmpty_def exFiles_def exBankRepo_def exBniRepo_def csv_defs)

lemma exCsvSvc_bankRepos:
  "bankRepos (exCsvSvc lib) =
     [(''bca'', CSVBankRepository_GetTransactionsInRangeConcurrently lib [] exBankRepo),
      (''bni'', CSVBankRepository_GetTransactionsInRangeConcurrently lib [] exBniRepo)]"
  by (simp add: exCsvSvc_def)

theorem Reconcile_feed_failure_aborts_witness:
  "systemRepo (exCsvSvc exLibNoSystem) (AddDate exStart (- 1)) (AddDate exEnd 1) = Inl exOpenError
 \<and> Reconcile (exCsvSvc exLibNoSystem) exStart exEnd
     = (emptyResult, Some (Wrap ''fetching system transactions'' exOpenError))
 \<and> systemRepo (exCsvSvc (exLibEmpty ''bni.csv'')) (AddDate exStart (- 1)) (AddDate exEnd 1) = Inr []
 \<and> CSVBankRepository_GetTransactionsInRangeConcurrently (exLibEmpty ''bni.csv'') [] exBniRepo
       (AddDate exStart (- 1)) (AddDate exEnd 1)
     = Inl (Wrap ''reading system transaction header'' (Err ''EOF''))
 \<and> Reconcile (exCsvSvc (exLibEmpty ''bni.csv'')) exStart exEnd
     = (emptyResult, Some (Wrap ''fetching bank transactions''
                            (Wrap ''reading system transaction header'' (Err ''EOF''))))"
proof -
  have buf: "dateBuffer (exCsvSvc lib) = 1" for lib
    by (simp add: exCsvSvc_def)
  from Reconcile_feed_failure_aborts [of "exCsvSvc exLibNoSystem" exStart exEnd exOpenError "[]"]
  have 1: "Reconcile (exCsvSvc exLibNoSystem) exStart exEnd
             = (emptyResult, Some (Wrap ''fetching system transactions'' exOpenError))"
    by (simp add: buf exCsvSvc_system_feed)
  from Reconcile_feed_failure_aborts [of "exCsvSvc (exLibEmpty ''bni.csv'')" exStart exEnd exOpenError "[]"]
  have 2: "Reconcile (exCsvSvc (exLibEmpty ''bni.csv'')) exStart exEnd
             = (emptyResult, Some (Wrap ''fetching bank transactions''
                                    (Wrap ''reading system transaction header'' (Err ''EOF''))))"
    by (simp add: buf exCsvSvc_system_feed exCsvSvc_bankRepos exCsvSvc_bank_feeds)
  from 1 2 show ?thesis
    by (simp add: exCsvSvc_system_feed exCsvSvc_bank_feeds)
qed

text \<open>
  C7 as stated fails where it says that the error identifies the originating feed. In
  the first run the feed \<open>bca\<close> fails (its file is empty) and \<open>bni\<close> is read; in the
  second run \<open>bni\<close> fails and \<open>bca\<close> is read. \<open>Reconcile\<close> returns the same error in
  both runs.
\<close>

theorem Reconcile_error_feed_counterexample:
  "CSVBankRepository_GetTransactionsInRangeConcurrently (exLibEmpty ''bca.csv'') [] exBniRepo
       (AddDate exStart (- 1)) (AddDate exEnd 1) = Inr []
 \<and> Reconcile (exCsvSvc (exLibEmpty ''bca.csv'')) exStart exEnd = (emptyResult, Some exFeedError)
 \<and> CSVBankRepository_GetTransactionsInRangeConcurrently (exLibEmpty ''bni.csv'') [] exBankRepo
       (AddDate exStart (- 1)) (AddDate exEnd 1) = Inr []
 \<and> Reconcile (exCsvSvc (exLibEmpty ''bni.csv'')) exStart exEnd = (emptyResult, Some exFeedError)"
  by (simp add: Reconcile_def Let_def exCsvSvc_system_feed exCsvSvc_bankRepos exCsvSvc_bank_feeds
      exFeedError_def)

lemma fetchBankTxns_error_prefix:
  "fetchBankTxns repos S E acc = Inl err \<Longrightarrow> \<exists>err'. err = Wrap ''fetching bank transactions'' err'"
proof (induction repos arbitrary: acc)
  case Nil
  then show ?case by simp
next
  case (Cons p repos)
  obtain name repo where p: "p = (name, repo)" by (cases p)
  from Cons p show ?case by (cases "repo S E") auto
qed

text \<open>
  C9. \<open>FindMatches\<close> returns a list of matches and never an error, for every list of
  strategies and every pair of input lists; a service whose matcher is \<open>FindMatches\<close>
  therefore never returns the error "matching transactions" from \<open>Reconcile\<close>.
\<close>

theorem FindMatches_never_fails:
  "(\<exists>matches. FindMatches strategies systemTxns bankTxns = Inr matches)
 \<and> (\<forall>err. snd (Reconcile (svc\<lparr>matcher := FindMatches strategies\<rparr>) startDate endDate)
            \<noteq> Some (Wrap ''matching transactions'' err))"
proof -
  have 1: "\<exists>matches. FindMatches strategies systemTxns bankTxns = Inr matches"
    by (simp add: FindMatches_def)
  have 2: "snd (Reconcile (svc\<lparr>matcher := FindMatches strategies\<rparr>) startDate endDate)
            \<noteq> Some (Wrap ''matching transactions'' err)" for err
    unfolding Reconcile_def Let_def
    by (auto simp: FindMatches_def split: sum.splits dest: fetchBankTxns_error_prefix)
  from 1 2 show ?thesis by blast
qed

theorem FindMatches_never_fails_witness:
  "FindMatches (NewDefaultMatcher []) [exT1, exT1b] [exS1] = Inr [exM1]
 \<and> snd (Reconcile (exSvc\<lparr>matcher := FindMatches (NewDefaultMatcher [])\<rparr>) exStart exEnd) = None
 \<and> snd (Reconcile (exSvc\<lparr>matcher := FindMatches (NewDefaultMatcher [])\<rparr>) exStart exEnd)
     \<noteq> Some (Wrap ''matching transactions'' (Err ''EOF''))"
proof -
  have same: "exSvc\<lparr>matcher := FindMatches (NewDefaultMatcher [])\<rparr> = exSvc"
    by (simp add: exSvc_def)
  from FindMatches_never_fails [of "NewDefaultMatcher []" "[exT1, exT1b]" "[exS1]" exSvc exStart exEnd]
  show ?thesis
    by (simp add: same Reconcile_example FindMatches_example)
qed

section \<open>Properties of the CSV repositories\<close>

text \<open>
  C10. \<open>NewCSVBankRepository\<close> takes the bank identifier from the base name of the
  path by cutting its last four characters, whatever they are. When the base name has
  fewer than four characters the slice is out of bounds and the constructor panics;
  otherwise the identifier is the base name without its last four characters, also when
  these are not the extension of a CSV file.
\<close>

theorem NewCSVBankRepository_drops_four:
  "(length (Base filePath) < 4 \<longrightarrow> NewCSVBankRepository filePath dateFormat = Inl SliceBoundsOutOfRange)
 \<and> (4 \<le> length (Base filePath) \<longrightarrow>
      (\<exists>r. NewCSVBankRepository filePath dateFormat = Inr r
         \<and> BankIdentifier r = take (length (Base filePath) - 4) (Base filePath)
         \<and> length (BankIdentifier r) + 4 = length (Base filePath)
         \<and> BankIdentifier r @ drop (length (Base filePath) - 4) (Base filePath) = Base filePath))"
  by (auto simp: NewCSVBankRepository_def Let_def)

lemma Base_examples:
  "Base ''ab'' = ''ab''" "Base '''' = ''.''" "Base ''data/bank.txt'' = ''bank.txt''"
  "Base ''bca.csv'' = ''bca.csv''"
  by (simp_all add: Base_def IsPathSeparator_def)

theorem NewCSVBankRepository_drops_four_witness:
  "length (Base ''ab'') < 4 \<and> NewCSVBankRepository ''ab'' '''' = Inl SliceBoundsOutOfRange
 \<and> length (Base '''') < 4 \<and> NewCSVBankRepository '''' '''' = Inl SliceBoundsOutOfRange
 \<and> 4 \<le> length (Base ''data/bank.txt'')
 \<and> NewCSVBankRepository ''data/bank.txt'' ''''
     = Inr \<lparr>FilePath = ''data/bank.txt'', BankIdentifier = ''bank'', DateFormat = ''2006-01-02'',
            NumWorkers = 4, BatchSize = 1000\<rparr>
 \<and> 4 \<le> length (Base ''bca.csv'') \<and> NewCSVBankRepository ''bca.csv'' '''' = Inr exBankRepo"
  using NewCSVBankRepository_drops_four [of "''ab''" "''''"]
    NewCSVBankRepository_drops_four [of "''''" "''''"]
    NewCSVBankRepository_drops_four [of "''data/bank.txt''" "''''"]
    NewCSVBankRepository_drops_four [of "''bca.csv''" "''''"]
  by (simp add: Base_examples NewCSVBankRepository_def exBankRepo_def)

text \<open>
  The two ingestion methods of the system repository. The batches sent by the producer
  hold all the records in order, a worker keeps of its batch what the sequential method
  keeps of these rows, and the collector receives every batch result once, in the order
  of \<open>schedule\<close>.
\<close>

lemma concat_readAndDistribute: "concat (readAndDistribute records n batch) = batch @ records"
  by (induction records n batch rule: readAndDistribute.induct) (auto simp: Let_def)

lemma systemBatchResults_append:
  "systemBatchResults lib cm df s e (xs @ ys)
     = systemBatchResults lib cm df s e xs @ systemBatchResults lib cm df s e ys"
  by (induction xs) (auto simp: Let_def split: option.splits)

lemma systemBatchResults_concat:
  "concat (map (systemBatchResults lib cm df s e) jobs) = systemBatchResults lib cm df s e (concat jobs)"
  by (induction jobs) (simp_all add: systemBatchResults_append)

lemma concat_filter_nonempty: "concat (filter (\<lambda>r. r \<noteq> []) rs) = concat rs"
  by (induction rs) auto

lemma collectResults_set:
  assumes "set schedule = {0..<length results}"
  shows "set (collectResults schedule results) = set (concat results)"
proof -
  have "set (collectResults schedule results) = (\<Union>i \<in> set schedule. set (results ! i))"
    using assms by (auto simp: collectResults_def)
  also have "\<dots> = (\<Union>i \<in> {0..<length results}. set (results ! i))"
    using assms by simp
  also have "\<dots> = set (concat results)"
  proof -
    have "(\<lambda>i. results ! i) ` {0..<length results} = set results"
      by (metis map_nth set_map set_upt)
    then have "set (concat results) = (\<Union>xs \<in> (\<lambda>i. results ! i) ` {0..<length results}. set xs)"
      by simp
    then show ?thesis by (simp only: image_image UN_simps)
  qed
  finally show ?thesis .
qed

lemma systemRowProcessorFn_append:
  "systemRowProcessorFn lib cm df row txns = txns @ systemRowProcessorFn lib cm df row []"
  by (simp add: systemRowProcessorFn_def Let_def split: option.splits)

lemma foldl_systemRowProcessorFn:
  "foldl (\<lambda>txns row. systemRowProcessorFn lib cm df row txns) acc rows
     = acc @ foldl (\<lambda>txns row. systemRowProcessorFn lib cm df row txns) [] rows"
proof (induction rows arbitrary: acc)
  case Nil
  then show ?case by simp
next
  case (Cons row rows)
  let ?f = "\<lambda>txns row. systemRowProcessorFn lib cm df row txns"
  have "foldl ?f acc (row # rows) = foldl ?f (systemRowProcessorFn lib cm df row acc) rows"
    by simp
  also have "\<dots> = systemRowProcessorFn lib cm df row acc @ foldl ?f [] rows"
    by (rule Cons.IH)
  also have "\<dots> = acc @ (systemRowProcessorFn lib cm df row [] @ foldl ?f [] rows)"
    by (subst systemRowProcessorFn_append) simp
  also have "systemRowProcessorFn lib cm df row [] @ foldl ?f [] rows
               = foldl ?f (systemRowProcessorFn lib cm df row []) rows"
    by (rule Cons.IH [symmetric])
  finally show ?case by simp
qed

lemma sequential_filter_eq_batch:
  "filter (\<lambda>txn. inDateRange (TransactionTime txn) s e)
     (foldl (\<lambda>txns row. systemRowProcessorFn lib cm df row txns) [] rows)
   = systemBatchResults lib cm df s e rows"
proof (induction rows)
  case Nil
  then show ?case by simp
next
  case (Cons row rows)
  let ?f = "\<lambda>txns row. systemRowProcessorFn lib cm df row txns"
  have "foldl ?f [] (row # rows) = systemRowProcessorFn lib cm df row [] @ foldl ?f [] rows"
    using foldl_systemRowProcessorFn [of lib cm df "systemRowProcessorFn lib cm df row []" rows]
    by simp
  then have "filter (\<lambda>txn. inDateRange (TransactionTime txn) s e) (foldl ?f [] (row # rows))
      = filter (\<lambda>txn. inDateRange (TransactionTime txn) s e) (systemRowProcessorFn lib cm df row [])
        @ systemBatchResults lib cm df s e rows"
    using Cons.IH by simp
  also have "\<dots> = systemBatchResults lib cm df s e (row # rows)"
    by (auto simp: systemRowProcessorFn_def inDateRange_iff Let_def split: option.splits)
  finally show ?case .
qed

text \<open>
  For the system repository the sequential and the concurrent method return the same set
  of transactions, under every order of arrival of the batch results.
\<close>

lemma system_ingestion_modes_agree:
  assumes src: "csvFile lib (CSVSystemRepository.FilePath r) = Inr (header # records)"
    and hdr: "crateHeaderMap header systemHeaderFields = Inr cm"
    and workers: "CSVSystemRepository.NumWorkers r > 0"
    and sched: "set schedule = {0..<length (startWorkers lib cm (CSVSystemRepository.DateFormat r) s e
                   (readAndDistributeSystemTxns records (CSVSystemRepository.BatchSize r)))}"
  shows "\<exists>sequential concurrent.
           CSVSystemRepository_GetTransactionsInRange lib r s e = Inr sequential
         \<and> CSVSystemRepository_GetTransactionsInRangeConcurrently lib schedule r s e = Inr concurrent
         \<and> set concurrent = set sequential"
proof -
  let ?df = "CSVSystemRepository.DateFormat r"
  let ?jobs = "readAndDistributeSystemTxns records (CSVSystemRepository.BatchSize r)"
  let ?results = "startWorkers lib cm ?df s e ?jobs"
  have seq: "CSVSystemRepository_GetTransactionsInRange lib r s e
               = Inr (systemBatchResults lib cm ?df s e records)"
    using src hdr
    by (simp add: CSVSystemRepository_GetTransactionsInRange_def ReadHeader_def ReadAndProcessByRow_def
        sequential_filter_eq_batch)
  have conc: "CSVSystemRepository_GetTransactionsInRangeConcurrently lib schedule r s e
               = Inr (collectResults schedule ?results)"
    using src hdr workers
    by (simp add: CSVSystemRepository_GetTransactionsInRangeConcurrently_def Let_def)
  have "concat ?results = systemBatchResults lib cm ?df s e records"
    by (simp add: startWorkers_def concat_filter_nonempty systemBatchResults_concat
        readAndDistributeSystemTxns_def concat_readAndDistribute)
  with collectResults_set [OF sched]
  have "set (collectResults schedule ?results) = set (systemBatchResults lib cm ?df s e records)"
    by simp
  with seq conc show ?thesis by simp
qed

lemma system_ingestion_modes_fail_together:
  "(\<exists>err. CSVSystemRepository_GetTransactionsInRange lib r s e = Inl err)
   \<longleftrightarrow> (\<exists>err. CSVSystemRepository_GetTransactionsInRangeConcurrently lib schedule r s e = Inl err)"
  by (auto simp: CSVSystemRepository_GetTransactionsInRange_def
      CSVSystemRepository_GetTransactionsInRangeConcurrently_def ReadHeader_def ReadAndProcessByRow_def
      Let_def split: sum.splits list.splits)


lemma bankBatchResults_append:
  "bankBatchResults lib cm df bankID s e (xs @ ys)
     = bankBatchResults lib cm df bankID s e xs @ bankBatchResults lib cm df bankID s e ys"
  by (induction xs) (auto simp: Let_def split: option.splits)

lemma bankBatchResults_concat:
  "concat (map (bankBatchResults lib cm df bankID s e) jobs) = bankBatchResults lib cm df bankID s e (concat jobs)"
  by (induction jobs) (simp_all add: bankBatchResults_append)

lemma bankRowProcessorFn_append:
  "bankRowProcessorFn lib cm df bankID row txns = txns @ bankRowProcessorFn lib cm df bankID row []"
  by (simp add: bankRowProcessorFn_def Let_def split: option.splits)

lemma foldl_bankRowProcessorFn:
  "foldl (\<lambda>txns row. bankRowProcessorFn lib cm df bankID row txns) acc rows
     = acc @ foldl (\<lambda>txns row. bankRowProcessorFn lib cm df bankID row txns) [] rows"
proof (induction rows arbitrary: acc)
  case Nil
  then show ?case by simp
next
  case (Cons row rows)
  let ?f = "\<lambda>txns row. bankRowProcessorFn lib cm df bankID row txns"
  have "foldl ?f acc (row # rows) = foldl ?f (bankRowProcessorFn lib cm df bankID row acc) rows"
    by simp
  also have "\<dots> = bankRowProcessorFn lib cm df bankID row acc @ foldl ?f [] rows"
    by (rule Cons.IH)
  also have "\<dots> = acc @ (bankRowProcessorFn lib cm df bankID row [] @ foldl ?f [] rows)"
    by (subst bankRowProcessorFn_append) simp
  also have "bankRowProcessorFn lib cm df bankID row [] @ foldl ?f [] rows
               = foldl ?f (bankRowProcessorFn lib cm df bankID row []) rows"
    by (rule Cons.IH [symmetric])
  finally show ?case by simp
qed

text \<open>The bank workers keep every row that parses: what the sequential method loads before it filters.\<close>

lemma sequential_load_eq_bank_batch:
  "foldl (\<lambda>txns row. bankRowProcessorFn lib cm df bankID row txns) [] rows
   = bankBatchResults lib cm df bankID s e rows"
proof (induction rows)
  case Nil
  then show ?case by simp
next
  case (Cons row rows)
  let ?f = "\<lambda>txns row. bankRowProcessorFn lib cm df bankID row txns"
  have "foldl ?f [] (row # rows) = bankRowProcessorFn lib cm df bankID row [] @ foldl ?f [] rows"
    using foldl_bankRowProcessorFn [of lib cm df bankID "bankRowProcessorFn lib cm df bankID row []" rows]
    by simp
  also have "\<dots> = bankRowProcessorFn lib cm df bankID row [] @ bankBatchResults lib cm df bankID s e rows"
    using Cons.IH by simp
  also have "\<dots> = bankBatchResults lib cm df bankID s e (row # rows)"
    by (auto simp: bankRowProcessorFn_def Let_def split: option.splits)
  finally show ?case .
qed

text \<open>
  For the bank repository the sequential method returns, as a set, the transactions of
  the concurrent method that lie in the range: the two agree exactly when the file has
  no parsable row outside the range.
\<close>

lemma bank_ingestion_concurrent_unfiltered:
  assumes src: "csvFile lib (CSVBankRepository.FilePath r) = Inr (header # records)"
    and hdr: "crateHeaderMap header bankHeaderFields = Inr cm"
    and workers: "CSVBankRepository.NumWorkers r > 0"
    and sched: "set schedule = {0..<length (startBankWorkers lib cm (CSVBankRepository.DateFormat r)
                   (BankIdentifier r) s e
                   (readAndDistributeBankStatements records (CSVBankRepository.BatchSize r)))}"
  shows "\<exists>sequential concurrent.
           CSVBankRepository_GetTransactionsInRange lib r s e = Inr sequential
         \<and> CSVBankRepository_GetTransactionsInRangeConcurrently lib schedule r s e = Inr concurrent
         \<and> set sequential = {txn \<in> set concurrent. inDateRange (Date txn) s e}"
proof -
  let ?df = "CSVBankRepository.DateFormat r"
  let ?jobs = "readAndDistributeBankStatements records (CSVBankRepository.BatchSize r)"
  let ?results = "startBankWorkers lib cm ?df (BankIdentifier r) s e ?jobs"
  let ?all = "bankBatchResults lib cm ?df (BankIdentifier r) s e records"
  have seq: "CSVBankRepository_GetTransactionsInRange lib r s e
               = Inr (filter (\<lambda>txn. inDateRange (Date txn) s e) ?all)"
    using src hdr
    by (simp add: CSVBankRepository_GetTransactionsInRange_def ReadHeader_def ReadAndProcessByRow_def
        sequential_load_eq_bank_batch [of lib cm ?df "BankIdentifier r" records s e])
  have conc: "CSVBankRepository_GetTransactionsInRangeConcurrently lib schedule r s e
               = Inr (collectResults schedule ?results)"
    using src hdr workers
    by (simp add: CSVBankRepository_GetTransactionsInRangeConcurrently_def Let_def
        collectBankTxnResults_def)
  have "concat ?results = ?all"
    by (simp add: startBankWorkers_def concat_filter_nonempty bankBatchResults_concat
        readAndDistributeBankStatements_def concat_readAndDistribute)
  with collectResults_set [OF sched]
  have "set (collectResults schedule ?results) = set ?all"
    by simp
  with seq conc show ?thesis by auto
qed



end
